theory Spec2Isabelle
  imports Main "HOL-Library.Word"
begin

section \<open>Search.cpp: GPU-direct file ingestion and batch scan\<close>

text \<open>
  A shallow embedding of \<^verbatim>\<open>src/Search.cpp\<close>. The program is a sequence of calls into
  DirectStorage, Direct3D 12 and cuDF, a handful of \<^verbatim>\<open>FAILED(hr)\<close> checks that throw
  \<^verbatim>\<open>std::runtime_error\<close>, one loop with a \<^verbatim>\<open>try/catch\<close>, and six global
  \<^verbatim>\<open>ComPtr\<close>s. The model keeps exactly that:
  \<^item> the six globals, the calls made so far and the lines written to the console are
    a record \<open>state\<close> that every function receives and returns;
  \<^item> what the libraries answer is a parameter, the record \<open>platform\<close>: each answer is a
    function of the arguments of the call;
  \<^item> a function ends in one of three ways (\<open>outcome\<close>): it returns, it throws a
    \<^verbatim>\<open>std::exception\<close> (all the program's own throws are \<^verbatim>\<open>std::runtime_error\<close>),
    or it calls a method through a null \<^verbatim>\<open>ComPtr\<close>, which no
    \<^verbatim>\<open>catch (const std::exception&)\<close> catches. Both handlers read a caught exception
    through \<^verbatim>\<open>what()\<close> only, so \<open>Thrown w\<close> carries \<open>w\<close>, the C string that
    \<^verbatim>\<open>what()\<close> returns.

  Not modelled: the copy of the bytes into a \<^verbatim>\<open>std::string\<close> is taken to succeed; the
  releases done by the destructors of the local \<^verbatim>\<open>ComPtr\<close>s of
  \<^verbatim>\<open>read_file_direct_storage\<close> are not recorded; \<^verbatim>\<open>DllMain\<close> returns \<^verbatim>\<open>TRUE\<close>
  and does nothing else.
\<close>

subsection \<open>Values\<close>

type_synonym byte = "8 word"
type_synonym uint64_t = "64 word"
type_synonym HRESULT = "32 word"

text \<open>\<^verbatim>\<open>FAILED(hr)\<close> is \<^verbatim>\<open>((HRESULT)(hr)) < 0\<close> on a signed 32-bit value.\<close>

definition FAILED :: "HRESULT \<Rightarrow> bool" where
  "FAILED hr = (sint hr < 0)"

definition S_OK :: HRESULT where
  "S_OK = 0"

definition E_FAIL :: HRESULT where
  "E_FAIL = 0x80004005"

definition E_INVALIDARG :: HRESULT where
  "E_INVALIDARG = 0x80070057"

text \<open>
  A \<^verbatim>\<open>std::string\<close> may hold NUL characters; read as a C string, through
  \<^verbatim>\<open>c_str()\<close> or \<^verbatim>\<open>what()\<close>, it ends before the first one.
\<close>

definition c_str :: "string \<Rightarrow> string" where
  "c_str s = takeWhile (\<lambda>c. c \<noteq> CHR 0x00) s"

text \<open>
  A \<^verbatim>\<open>ComPtr<T>\<close> either is null or holds an interface. Which object it holds plays
  no part in the program.
\<close>

datatype ComPtr = Null | Valid

text \<open>
  An interface out-parameter after a call that returned \<open>hr\<close>: COM sets it on success
  and leaves it null on failure.
\<close>

definition out_ptr :: "HRESULT \<Rightarrow> ComPtr" where
  "out_ptr hr = (if FAILED hr then Null else Valid)"

text \<open>The six globals of lines 17 to 22, by name.\<close>

datatype global =
  StorageFactory | StorageQueue | Device | CommandQueue | CommandAllocator | CommandList

datatype D3D12_HEAP_TYPE = D3D12_HEAP_TYPE_DEFAULT | D3D12_HEAP_TYPE_READBACK

text \<open>
  Every call the program makes into a library, with the arguments that vary.
  \<open>Release g\<close> is the release of the interface held by global \<open>g\<close>.
\<close>

datatype event =
    DStorageGetFactory
  | D3D12CreateDevice
  | CreateCommandQueue
  | CreateCommandAllocator
  | CreateCommandList
  | CreateQueue
  | Release global
  | OpenFile string
  | GetFileInformation string
  | CreateCommittedResource D3D12_HEAP_TYPE uint64_t
  | EnqueueReadFile string uint64_t uint64_t
  | Submit
  | WaitForIdle
  | ResourceBarrier
  | CopyResource
  | ExecuteCommandLists
  | Signal ComPtr uint64_t
  | MapResource
  | Unmap
  | get_current_device_resource
  | create_column_from_scalar nat
  | contains string

text \<open>
  The three lines the program writes:
  \<^verbatim>\<open>File: <path> contains pattern: <pattern> -> <result>\<close> on \<^verbatim>\<open>std::cout\<close>,
  \<^verbatim>\<open>Error processing file <path>: <what>\<close> and
  \<^verbatim>\<open>XWF_Run encountered an error: <what>\<close> on \<^verbatim>\<open>std::cerr\<close>.
\<close>

datatype line =
    Cout_File string string "bool list"
  | Cerr_Error_processing_file string string
  | Cerr_XWF_Run_error string

datatype 'a outcome = Returned 'a | Thrown string | Fault

subsection \<open>The platform\<close>

text \<open>
  What the libraries answer. The \<open>hr_\<close> fields are the \<^verbatim>\<open>HRESULT\<close>s of the calls of
  the same name. \<open>file_contents\<close> is what is on disk under a path;
  \<^verbatim>\<open>GetFileInformation\<close> reports its length. \<open>copy_progress\<close> is how many bytes of a
  device-to-device copy of the given width have reached the destination when the host
  maps it without having waited for the command queue: \<^verbatim>\<open>ExecuteCommandLists\<close>
  returns at once and the copy runs on the GPU. \<open>throw_vector\<close> is the \<^verbatim>\<open>what()\<close>
  of the \<^verbatim>\<open>std::length_error\<close> or \<^verbatim>\<open>std::bad_alloc\<close> that constructing a
  \<^verbatim>\<open>std::vector<uint8_t>\<close> of the given size throws, if it does.
  \<open>throw_get_current_device_resource\<close> is the \<^verbatim>\<open>what()\<close> of the exception RMM throws
  when it cannot query the CUDA device, \<open>regex_program\<close> compiles a pattern to a
  predicate on one row or throws. Files are known to the platform by the C string
  passed to \<^verbatim>\<open>OpenFile\<close>.
\<close>

record platform =
  hr_DStorageGetFactory :: HRESULT
  hr_D3D12CreateDevice :: HRESULT
  hr_CreateCommandQueue :: HRESULT
  hr_CreateCommandAllocator :: HRESULT
  hr_CreateCommandList :: HRESULT
  hr_CreateQueue :: HRESULT
  hr_OpenFile :: "string \<Rightarrow> HRESULT"
  hr_GetFileInformation :: "string \<Rightarrow> HRESULT"
  file_contents :: "string \<Rightarrow> byte list"
  throw_vector :: "uint64_t \<Rightarrow> string option"
  hr_CreateCommittedResource :: "D3D12_HEAP_TYPE \<Rightarrow> uint64_t \<Rightarrow> HRESULT"
  hr_Map :: "uint64_t \<Rightarrow> HRESULT"
  copy_progress :: "uint64_t \<Rightarrow> nat"
  throw_get_current_device_resource :: "string option"
  regex_program :: "string \<Rightarrow> string + (byte list \<Rightarrow> bool)"

subsection \<open>The state\<close>

record state =
  storageFactory :: ComPtr
  storageQueue :: ComPtr
  device :: ComPtr
  commandQueue :: ComPtr
  commandAllocator :: ComPtr
  commandList :: ComPtr
  calls :: "event list"
  console :: "line list"

definition call :: "event \<Rightarrow> state \<Rightarrow> state" where
  "call e s = s\<lparr>calls := calls s @ [e]\<rparr>"

definition print :: "line \<Rightarrow> state \<Rightarrow> state" where
  "print l s = s\<lparr>console := console s @ [l]\<rparr>"

text \<open>
  \<^verbatim>\<open>ComPtr::Reset()\<close>, and \<^verbatim>\<open>ComPtr::operator&\<close> (which is
  \<^verbatim>\<open>ReleaseAndGetAddressOf\<close>): an interface that is held is released, a null pointer
  is left alone. The caller then stores the new pointer.
\<close>

definition release :: "global \<Rightarrow> ComPtr \<Rightarrow> state \<Rightarrow> state" where
  "release g p s = (if p = Null then s else call (Release g) s)"

text \<open>The state of a process in which nothing has run yet.\<close>

definition process_start :: state where
  "process_start =
     \<lparr>storageFactory = Null, storageQueue = Null, device = Null, commandQueue = Null,
      commandAllocator = Null, commandList = Null, calls = [], console = []\<rparr>"

subsection \<open>\<^verbatim>\<open>initialize_direct_storage\<close> (lines 24 to 62)\<close>

definition initialize_direct_storage :: "platform \<Rightarrow> state \<Rightarrow> unit outcome \<times> state" where
  "initialize_direct_storage P s0 =
    (let hr = hr_DStorageGetFactory P;
         s1 = call DStorageGetFactory
                ((release StorageFactory (storageFactory s0) s0)\<lparr>storageFactory := out_ptr hr\<rparr>)
     in if FAILED hr then (Thrown ''Failed to initialize DirectStorage factory.'', s1) else
     let hr = hr_D3D12CreateDevice P;
         s2 = call D3D12CreateDevice
                ((release Device (device s1) s1)\<lparr>device := out_ptr hr\<rparr>)
     in if FAILED hr then (Thrown ''Failed to create D3D12 device.'', s2) else
     if device s2 = Null then (Fault, s2) else
     let hr = hr_CreateCommandQueue P;
         s3 = call CreateCommandQueue
                ((release CommandQueue (commandQueue s2) s2)\<lparr>commandQueue := out_ptr hr\<rparr>)
     in if FAILED hr then (Thrown ''Failed to create D3D12 command queue.'', s3) else
     if device s3 = Null then (Fault, s3) else
     let hr = hr_CreateCommandAllocator P;
         s4 = call CreateCommandAllocator
                ((release CommandAllocator (commandAllocator s3) s3)
                   \<lparr>commandAllocator := out_ptr hr\<rparr>)
     in if FAILED hr then (Thrown ''Failed to create D3D12 command allocator.'', s4) else
     if device s4 = Null then (Fault, s4) else
     let hr = hr_CreateCommandList P;
         s5 = call CreateCommandList
                ((release CommandList (commandList s4) s4)\<lparr>commandList := out_ptr hr\<rparr>)
     in if FAILED hr then (Thrown ''Failed to create D3D12 command list.'', s5) else
     if storageFactory s5 = Null then (Fault, s5) else
     let hr = hr_CreateQueue P;
         s6 = call CreateQueue
                ((release StorageQueue (storageQueue s5) s5)\<lparr>storageQueue := out_ptr hr\<rparr>)
     in if FAILED hr then (Thrown ''Failed to create DirectStorage queue.'', s6) else
     (Returned (), s6))"

subsection \<open>\<^verbatim>\<open>read_file_direct_storage\<close> (lines 64 to 139)\<close>

text \<open>
  The buffers are local to one call, so their contents are local values of the model.
  A committed resource is created zero-filled (both are created with
  \<^verbatim>\<open>D3D12_HEAP_FLAG_NONE\<close>). \<open>write_prefix src dst\<close> is \<open>dst\<close> with \<open>src\<close> written
  over its start, cut to the size of \<open>dst\<close>: a read, a copy or a \<^verbatim>\<open>memcpy\<close> of
  \<open>length src\<close> bytes into a buffer. Through \<^verbatim>\<open>Map\<close> the host sees the readback
  buffer as the GPU has written it so far: the first \<open>copy_progress\<close> bytes of the
  copy over the zeros the buffer was created with.
\<close>

definition write_prefix :: "byte list \<Rightarrow> byte list \<Rightarrow> byte list" where
  "write_prefix src dst = take (length dst) (src @ drop (length src) dst)"

text \<open>
  Line 66 passes \<^verbatim>\<open>file_path.c_str()\<close>, so the file that is opened, sized and read is
  the one named by the C string. Each \<^verbatim>\<open>std::runtime_error\<close> is built from a
  \<^verbatim>\<open>std::string\<close> that ends with the whole \<^verbatim>\<open>file_path\<close>; its \<^verbatim>\<open>what()\<close> is
  that string as a C string. Line 77 constructs the vector before any buffer is asked
  for; a vector of size 0 allocates nothing, so only a size other than 0 can make the
  constructor throw.
\<close>

definition read_file_direct_storage ::
  "platform \<Rightarrow> string \<Rightarrow> state \<Rightarrow> byte list outcome \<times> state" where
  "read_file_direct_storage P file_path s0 =
    (if storageFactory s0 = Null then (Fault, s0) else
     let storageFile = c_str file_path;
         s1 = call (OpenFile storageFile) s0;
         hr = hr_OpenFile P storageFile
     in if FAILED hr
        then (Thrown (c_str (''Failed to open file with DirectStorage: '' @ file_path)), s1) else
     let s2 = call (GetFileInformation storageFile) s1;
         hr = hr_GetFileInformation P storageFile;
         fileSize = (word_of_nat (length (file_contents P storageFile)) :: uint64_t)
     in if FAILED hr
        then (Thrown (c_str (''Failed to get file size for: '' @ file_path)), s2) else
     case (if fileSize = 0 then None else throw_vector P fileSize) of
       Some what \<Rightarrow> (Thrown what, s2)
     | None \<Rightarrow>
     let fileContent = replicate (unat fileSize) (0 :: byte)
     in if device s2 = Null then (Fault, s2) else
     let s3 = call (CreateCommittedResource D3D12_HEAP_TYPE_DEFAULT fileSize) s2;
         hr = hr_CreateCommittedResource P D3D12_HEAP_TYPE_DEFAULT fileSize;
         gpuBuffer = replicate (unat fileSize) (0 :: byte)
     in if FAILED hr
        then (Thrown (c_str (''Failed to create GPU buffer for file: '' @ file_path)), s3) else
     if storageQueue s3 = Null then (Fault, s3) else
     let s4 = call WaitForIdle (call Submit (call (EnqueueReadFile storageFile 0 fileSize) s3));
         gpuBuffer = write_prefix (take (unat fileSize) (file_contents P storageFile)) gpuBuffer
     in if device s4 = Null then (Fault, s4) else
     let s5 = call (CreateCommittedResource D3D12_HEAP_TYPE_READBACK fileSize) s4;
         hr = hr_CreateCommittedResource P D3D12_HEAP_TYPE_READBACK fileSize;
         readbackBuffer = replicate (unat fileSize) (0 :: byte)
     in if FAILED hr
        then (Thrown (c_str (''Failed to create readback buffer for file: '' @ file_path)), s5)
        else
     if commandList s5 = Null then (Fault, s5) else
     let s6 = call CopyResource (call ResourceBarrier s5)
     in if commandQueue s6 = Null then (Fault, s6) else
     let s7 = call (Signal Null 0) (call ExecuteCommandLists s6);
         s8 = call MapResource s7;
         hr = hr_Map P fileSize;
         mappedData = write_prefix (take (copy_progress P fileSize) gpuBuffer) readbackBuffer
     in if FAILED hr
        then (Thrown (c_str (''Failed to map readback buffer for file: '' @ file_path)), s8)
        else
     let fileContent = write_prefix (take (unat fileSize) mappedData) fileContent;
         s9 = call Unmap s8
     in (Returned fileContent, s9))"

subsection \<open>\<^verbatim>\<open>search_files_with_regex\<close> (lines 141 to 158)\<close>

text \<open>
  The body of the \<^verbatim>\<open>try\<close> block for one path: the column has \<^verbatim>\<open>content.size()\<close>
  rows, each the whole content, and the result has one boolean per row.
\<close>

definition search_try :: "platform \<Rightarrow> string \<Rightarrow> string \<Rightarrow> state \<Rightarrow> bool list outcome \<times> state" where
  "search_try P regex_pattern file_path s0 =
    (case read_file_direct_storage P file_path s0 of
       (Fault, s1) \<Rightarrow> (Fault, s1)
     | (Thrown what, s1) \<Rightarrow> (Thrown what, s1)
     | (Returned fileContent, s1) \<Rightarrow>
         let content = fileContent;
             s2 = call (create_column_from_scalar (length content)) s1;
             content_column = replicate (length content) content;
             s3 = call (contains regex_pattern) s2
         in (case regex_program P regex_pattern of
               Inl what \<Rightarrow> (Thrown what, s3)
             | Inr matches \<Rightarrow> (Returned (map matches content_column), s3)))"

text \<open>The \<^verbatim>\<open>for\<close> loop with its \<^verbatim>\<open>catch (const std::exception&)\<close>.\<close>

fun search_loop :: "platform \<Rightarrow> string \<Rightarrow> string list \<Rightarrow> state \<Rightarrow> unit outcome \<times> state" where
  "search_loop P regex_pattern [] s = (Returned (), s)"
| "search_loop P regex_pattern (file_path # file_paths) s =
    (case search_try P regex_pattern file_path s of
       (Fault, s1) \<Rightarrow> (Fault, s1)
     | (Thrown what, s1) \<Rightarrow>
         search_loop P regex_pattern file_paths
           (print (Cerr_Error_processing_file file_path what) s1)
     | (Returned result, s1) \<Rightarrow>
         search_loop P regex_pattern file_paths
           (print (Cout_File file_path regex_pattern result) s1))"

definition search_files_with_regex ::
  "platform \<Rightarrow> string list \<Rightarrow> string \<Rightarrow> state \<Rightarrow> unit outcome \<times> state" where
  "search_files_with_regex P file_paths regex_pattern s0 =
    (let s1 = call get_current_device_resource s0
     in case throw_get_current_device_resource P of
          Some what \<Rightarrow> (Thrown what, s1)
        | None \<Rightarrow> search_loop P regex_pattern file_paths s1)"

subsection \<open>\<^verbatim>\<open>XWF_Run\<close> and \<^verbatim>\<open>XWF_Exit\<close> (lines 160 to 190)\<close>

definition XWF_Run :: "platform \<Rightarrow> state \<Rightarrow> int outcome \<times> state" where
  "XWF_Run P s0 =
    (case initialize_direct_storage P s0 of
       (Fault, s1) \<Rightarrow> (Fault, s1)
     | (Thrown what, s1) \<Rightarrow> (Returned 1, print (Cerr_XWF_Run_error what) s1)
     | (Returned u, s1) \<Rightarrow>
         let regex_pattern = ''your-regex-pattern'';
             file_paths = [''file1.txt'', ''file2.txt'', ''file3.txt'']
         in (case search_files_with_regex P file_paths regex_pattern s1 of
               (Fault, s2) \<Rightarrow> (Fault, s2)
             | (Thrown what, s2) \<Rightarrow> (Returned 1, print (Cerr_XWF_Run_error what) s2)
             | (Returned u, s2) \<Rightarrow> (Returned 0, s2)))"

definition XWF_Exit :: "state \<Rightarrow> int \<times> state" where
  "XWF_Exit s0 =
    (let s1 = (release StorageQueue (storageQueue s0) s0)\<lparr>storageQueue := Null\<rparr>;
         s2 = (release StorageFactory (storageFactory s1) s1)\<lparr>storageFactory := Null\<rparr>;
         s3 = (release CommandList (commandList s2) s2)\<lparr>commandList := Null\<rparr>;
         s4 = (release CommandAllocator (commandAllocator s3) s3)\<lparr>commandAllocator := Null\<rparr>;
         s5 = (release CommandQueue (commandQueue s4) s4)\<lparr>commandQueue := Null\<rparr>;
         s6 = (release Device (device s5) s5)\<lparr>device := Null\<rparr>
     in (0, s6))"

subsection \<open>Reading a state\<close>

text \<open>All six globals hold an interface: the state after a successful initialization.\<close>

definition initialized :: "state \<Rightarrow> bool" where
  "initialized s =
     (storageFactory s = Valid \<and> storageQueue s = Valid \<and> device s = Valid \<and>
      commandQueue s = Valid \<and> commandAllocator s = Valid \<and> commandList s = Valid)"

text \<open>The six globals in the order in which \<^verbatim>\<open>initialize_direct_storage\<close> creates them.\<close>

definition handles :: "state \<Rightarrow> ComPtr list" where
  "handles s =
     [storageFactory s, device s, commandQueue s, commandAllocator s, commandList s,
      storageQueue s]"

text \<open>The four handles of the Device Context of the specification.\<close>

definition device_context :: "state \<Rightarrow> ComPtr list" where
  "device_context s = [device s, commandQueue s, commandAllocator s, commandList s]"

text \<open>The messages of the six throws of \<^verbatim>\<open>initialize_direct_storage\<close>, in the same order.\<close>

definition initialization_errors :: "string list" where
  "initialization_errors =
     [''Failed to initialize DirectStorage factory.'',
      ''Failed to create D3D12 device.'',
      ''Failed to create D3D12 command queue.'',
      ''Failed to create D3D12 command allocator.'',
      ''Failed to create D3D12 command list.'',
      ''Failed to create DirectStorage queue.'']"

text \<open>The results of the six creation calls on a platform, in the same order.\<close>

definition initialization_results :: "platform \<Rightarrow> HRESULT list" where
  "initialization_results P =
     [hr_DStorageGetFactory P, hr_D3D12CreateDevice P, hr_CreateCommandQueue P,
      hr_CreateCommandAllocator P, hr_CreateCommandList P, hr_CreateQueue P]"

text \<open>
  The calls of the six sub-steps of \<^verbatim>\<open>initialize_direct_storage\<close> from the state \<open>s\<close>,
  one list per sub-step: the release of the global if it holds an interface, then the
  creation call.
\<close>

definition released :: "global \<Rightarrow> ComPtr \<Rightarrow> event list" where
  "released g p = (if p = Null then [] else [Release g])"

definition initialization_steps :: "state \<Rightarrow> event list list" where
  "initialization_steps s =
     [released StorageFactory (storageFactory s) @ [DStorageGetFactory],
      released Device (device s) @ [D3D12CreateDevice],
      released CommandQueue (commandQueue s) @ [CreateCommandQueue],
      released CommandAllocator (commandAllocator s) @ [CreateCommandAllocator],
      released CommandList (commandList s) @ [CreateCommandList],
      released StorageQueue (storageQueue s) @ [CreateQueue]]"

fun held :: "state \<Rightarrow> global \<Rightarrow> bool" where
  "held s StorageFactory = (storageFactory s \<noteq> Null)"
| "held s StorageQueue = (storageQueue s \<noteq> Null)"
| "held s Device = (device s \<noteq> Null)"
| "held s CommandQueue = (commandQueue s \<noteq> Null)"
| "held s CommandAllocator = (commandAllocator s \<noteq> Null)"
| "held s CommandList = (commandList s \<noteq> Null)"

text \<open>The paths passed to \<^verbatim>\<open>OpenFile\<close> and the patterns passed to \<^verbatim>\<open>contains\<close>, in call order.\<close>

fun opened :: "event list \<Rightarrow> string list" where
  "opened [] = []"
| "opened (OpenFile p # es) = p # opened es"
| "opened (e # es) = opened es"

fun patterns :: "event list \<Rightarrow> string list" where
  "patterns [] = []"
| "patterns (contains p # es) = p # patterns es"
| "patterns (e # es) = patterns es"

text \<open>The path a console line is about; the line of \<^verbatim>\<open>XWF_Run\<close> is about none.\<close>

fun line_path :: "line \<Rightarrow> string option" where
  "line_path (Cout_File p r m) = Some p"
| "line_path (Cerr_Error_processing_file p w) = Some p"
| "line_path (Cerr_XWF_Run_error w) = None"

text \<open>What a run that started in \<open>s\<close> and ended in \<open>s'\<close> wrote and called.\<close>

definition new_lines :: "state \<Rightarrow> state \<Rightarrow> line list" where
  "new_lines s s' = drop (length (console s)) (console s')"

definition new_calls :: "state \<Rightarrow> state \<Rightarrow> event list" where
  "new_calls s s' = drop (length (calls s)) (calls s')"

subsection \<open>Sample platforms and states\<close>

text \<open>A state with all six globals set and no history.\<close>

definition ready :: state where
  "ready =
     \<lparr>storageFactory = Valid, storageQueue = Valid, device = Valid, commandQueue = Valid,
      commandAllocator = Valid, commandList = Valid, calls = [], console = []\<rparr>"

text \<open>
  A platform on which every creation call succeeds, three files exist (\<^verbatim>\<open>a.txt\<close> holds
  \<^verbatim>\<open>foo\<close>, \<^verbatim>\<open>file2.txt\<close> holds \<^verbatim>\<open>b\<close>, \<^verbatim>\<open>empty.txt\<close> is empty), a buffer of width 0
  is refused with \<^verbatim>\<open>E_INVALIDARG\<close> as Direct3D 12 does, the copy has always finished
  when the host maps, and a pattern matches a row that has the byte \<^verbatim>\<open>f\<close>.
\<close>

definition healthy :: platform where
  "healthy =
     \<lparr>hr_DStorageGetFactory = S_OK, hr_D3D12CreateDevice = S_OK, hr_CreateCommandQueue = S_OK,
      hr_CreateCommandAllocator = S_OK, hr_CreateCommandList = S_OK, hr_CreateQueue = S_OK,
      hr_OpenFile = (\<lambda>p. if p \<in> {''a.txt'', ''empty.txt'', ''file2.txt''} then S_OK else E_FAIL),
      hr_GetFileInformation = (\<lambda>p. S_OK),
      file_contents = (\<lambda>p. if p = ''a.txt'' then [0x66, 0x6F, 0x6F]
                              else if p = ''file2.txt'' then [0x62] else []),
      throw_vector = (\<lambda>n. None),
      hr_CreateCommittedResource = (\<lambda>h w. if w = 0 then E_INVALIDARG else S_OK),
      hr_Map = (\<lambda>w. S_OK),
      copy_progress = (\<lambda>w. unat w),
      throw_get_current_device_resource = None,
      regex_program =
        (\<lambda>p. if p = [] then Inl ''empty pattern'' else Inr (\<lambda>row. 0x66 \<in> set row))\<rparr>"

text \<open>The same platform with a GPU that has not started the copy when the host maps.\<close>

definition racy :: platform where
  "racy = healthy\<lparr>copy_progress := (\<lambda>w. 0)\<rparr>"

text \<open>The same platform where the command queue cannot be created.\<close>

definition no_queue :: platform where
  "no_queue = healthy\<lparr>hr_CreateCommandQueue := E_FAIL\<rparr>"

text \<open>The same platform where RMM cannot query the CUDA device.\<close>

definition no_cuda :: platform where
  "no_cuda = healthy\<lparr>throw_get_current_device_resource := Some ''cudaErrorNoDevice''\<rparr>"

text \<open>The same platform where no file can be opened.\<close>

definition no_files :: platform where
  "no_files = healthy\<lparr>hr_OpenFile := (\<lambda>p. E_FAIL)\<rparr>"

text \<open>The same platform with an allocator that accepts a buffer of width 0.\<close>

definition lenient :: platform where
  "lenient = healthy\<lparr>hr_CreateCommittedResource := (\<lambda>h w. S_OK)\<rparr>"

section \<open>Properties\<close>

subsection \<open>Result codes\<close>

lemma FAILED_S_OK [simp]: "\<not> FAILED S_OK"
  by (simp add: FAILED_def S_OK_def)

lemma FAILED_E_FAIL [simp]: "FAILED E_FAIL"
  by (simp add: FAILED_def E_FAIL_def)

lemma FAILED_E_INVALIDARG [simp]: "FAILED E_INVALIDARG"
  by (simp add: FAILED_def E_INVALIDARG_def)

subsection \<open>Frame facts\<close>

lemma opened_append: "opened (xs @ ys) = opened xs @ opened ys"
  by (induction xs rule: opened.induct) simp_all

lemma patterns_append: "patterns (xs @ ys) = patterns xs @ patterns ys"
  by (induction xs rule: patterns.induct) simp_all

lemma call_fields [simp]:
  "storageFactory (call e s) = storageFactory s"
  "storageQueue (call e s) = storageQueue s"
  "device (call e s) = device s"
  "commandQueue (call e s) = commandQueue s"
  "commandAllocator (call e s) = commandAllocator s"
  "commandList (call e s) = commandList s"
  "console (call e s) = console s"
  "calls (call e s) = calls s @ [e]"
  by (simp_all add: call_def)

lemma print_fields [simp]:
  "storageFactory (print l s) = storageFactory s"
  "storageQueue (print l s) = storageQueue s"
  "device (print l s) = device s"
  "commandQueue (print l s) = commandQueue s"
  "commandAllocator (print l s) = commandAllocator s"
  "commandList (print l s) = commandList s"
  "console (print l s) = console s @ [l]"
  "calls (print l s) = calls s"
  by (simp_all add: print_def)

lemma release_fields [simp]:
  "storageFactory (release g p s) = storageFactory s"
  "storageQueue (release g p s) = storageQueue s"
  "device (release g p s) = device s"
  "commandQueue (release g p s) = commandQueue s"
  "commandAllocator (release g p s) = commandAllocator s"
  "commandList (release g p s) = commandList s"
  "console (release g p s) = console s"
  by (simp_all add: release_def)

lemma calls_release: "calls (release g p s) = calls s @ released g p"
  by (simp add: release_def released_def)

lemma opened_released [simp]: "opened (released g p) = []"
  by (simp add: released_def)

lemma patterns_released [simp]: "patterns (released g p) = []"
  by (simp add: released_def)

lemma opened_calls_release [simp]: "opened (calls (release g p s)) = opened (calls s)"
  by (simp add: calls_release opened_append)

lemma initialized_call [simp]: "initialized (call e s) = initialized s"
  by (simp add: initialized_def)

lemma initialized_print [simp]: "initialized (print l s) = initialized s"
  by (simp add: initialized_def)

lemma initialized_ready [simp]: "initialized ready"
  by (simp add: initialized_def ready_def)

lemma out_ptr_simps [simp]:
  "\<not> FAILED hr \<Longrightarrow> out_ptr hr = Valid" "FAILED hr \<Longrightarrow> out_ptr hr = Null"
  by (simp_all add: out_ptr_def)

lemma initialize_outcome:
  "fst (initialize_direct_storage P s) =
     (if FAILED (hr_DStorageGetFactory P) then Thrown (initialization_errors ! 0)
      else if FAILED (hr_D3D12CreateDevice P) then Thrown (initialization_errors ! 1)
      else if FAILED (hr_CreateCommandQueue P) then Thrown (initialization_errors ! 2)
      else if FAILED (hr_CreateCommandAllocator P) then Thrown (initialization_errors ! 3)
      else if FAILED (hr_CreateCommandList P) then Thrown (initialization_errors ! 4)
      else if FAILED (hr_CreateQueue P) then Thrown (initialization_errors ! 5)
      else Returned ())"
  by (simp add: initialize_direct_storage_def Let_def initialization_errors_def)

lemma initialize_not_Fault: "fst (initialize_direct_storage P s) \<noteq> Fault"
  by (simp add: initialize_outcome)

lemma initialize_Returned:
  "fst (initialize_direct_storage P s) = Returned u \<Longrightarrow>
   initialized (snd (initialize_direct_storage P s))"
  by (simp add: initialize_direct_storage_def Let_def initialized_def split: if_splits)

lemma initialize_opened:
  "opened (calls (snd (initialize_direct_storage P s))) = opened (calls s)"
  by (simp add: initialize_direct_storage_def Let_def opened_append)

lemma initialize_console:
  "console (snd (initialize_direct_storage P s)) = console s"
  by (simp add: initialize_direct_storage_def Let_def)

lemma read_file_initialized:
  assumes "initialized s"
  shows "fst (read_file_direct_storage P f s) \<noteq> Fault"
    and "fst (read_file_direct_storage P f s) = fst (read_file_direct_storage P f ready)"
    and "initialized (snd (read_file_direct_storage P f s))"
    and "console (snd (read_file_direct_storage P f s)) = console s"
    and "opened (calls (snd (read_file_direct_storage P f s))) = opened (calls s) @ [c_str f]"
    and "patterns (calls (snd (read_file_direct_storage P f s))) = patterns (calls s)"
  using assms
  by (simp_all add: read_file_direct_storage_def Let_def initialized_def ready_def
      opened_append patterns_append split: option.splits)

subsection \<open>The loop on an initialized state\<close>

lemma search_try_initialized:
  assumes "initialized s"
  shows "fst (search_try P pat f s) \<noteq> Fault"
    and "fst (search_try P pat f s) = fst (search_try P pat f ready)"
    and "initialized (snd (search_try P pat f s))"
    and "console (snd (search_try P pat f s)) = console s"
    and "opened (calls (snd (search_try P pat f s))) = opened (calls s) @ [c_str f]"
    and "set (patterns (calls (snd (search_try P pat f s)))) \<subseteq> insert pat (set (patterns (calls s)))"
proof -
  obtain r s1 where rs: "read_file_direct_storage P f s = (r, s1)"
    by (cases "read_file_direct_storage P f s")
  obtain r' s1' where rs': "read_file_direct_storage P f ready = (r', s1')"
    by (cases "read_file_direct_storage P f ready")
  from read_file_initialized [OF assms, of P f] rs rs'
  have r: "r \<noteq> Fault" "initialized s1" "console s1 = console s"
    "opened (calls s1) = opened (calls s) @ [c_str f]" "patterns (calls s1) = patterns (calls s)"
    and req: "r' = r"
    by simp_all
  show "fst (search_try P pat f s) \<noteq> Fault"
    using r by (cases r) (simp_all add: search_try_def rs Let_def split: sum.splits)
  show "fst (search_try P pat f s) = fst (search_try P pat f ready)"
    using r req by (cases r) (simp_all add: search_try_def rs rs' Let_def split: sum.splits)
  show "initialized (snd (search_try P pat f s))"
    using r by (cases r) (simp_all add: search_try_def rs Let_def split: sum.splits)
  show "console (snd (search_try P pat f s)) = console s"
    using r by (cases r) (simp_all add: search_try_def rs Let_def split: sum.splits)
  show "opened (calls (snd (search_try P pat f s))) = opened (calls s) @ [c_str f]"
    using r by (cases r) (simp_all add: search_try_def rs Let_def opened_append split: sum.splits)
  show "set (patterns (calls (snd (search_try P pat f s)))) \<subseteq> insert pat (set (patterns (calls s)))"
    using r by (cases r) (auto simp add: search_try_def rs Let_def patterns_append split: sum.splits)
qed

lemma search_loop_append:
  "search_loop P pat (xs @ ys) s =
     (case search_loop P pat xs s of
        (Returned u, s1) \<Rightarrow> search_loop P pat ys s1
      | (Thrown w, s1) \<Rightarrow> (Thrown w, s1)
      | (Fault, s1) \<Rightarrow> (Fault, s1))"
  by (induction xs arbitrary: s) (simp_all split: prod.splits outcome.splits)

lemma search_loop_initialized:
  "initialized s \<Longrightarrow>
     fst (search_loop P pat fs s) = Returned () \<and>
     initialized (snd (search_loop P pat fs s)) \<and>
     map line_path (console (snd (search_loop P pat fs s))) =
       map line_path (console s) @ map Some fs \<and>
     opened (calls (snd (search_loop P pat fs s))) = opened (calls s) @ map c_str fs \<and>
     set (patterns (calls (snd (search_loop P pat fs s)))) \<subseteq> insert pat (set (patterns (calls s)))"
proof (induction fs arbitrary: s)
  case Nil
  then show ?case by auto
next
  case (Cons f fs)
  obtain r s1 where rs: "search_try P pat f s = (r, s1)"
    by (cases "search_try P pat f s")
  from search_try_initialized [OF Cons.prems, of P pat f] rs
  have r: "r \<noteq> Fault" "initialized s1" "console s1 = console s"
    "opened (calls s1) = opened (calls s) @ [c_str f]"
    "set (patterns (calls s1)) \<subseteq> insert pat (set (patterns (calls s)))"
    by simp_all
  show ?case
  proof (cases r)
    case (Returned res)
    from r have i: "initialized (print (Cout_File f pat res) s1)" by simp
    from Cons.IH [OF i] r show ?thesis
      by (auto simp add: rs Returned)
  next
    case (Thrown w)
    from r have i: "initialized (print (Cerr_Error_processing_file f w) s1)" by simp
    from Cons.IH [OF i] r show ?thesis
      by (auto simp add: rs Thrown)
  next
    case Fault
    with r show ?thesis by simp
  qed
qed

lemma search_loop_console:
  "initialized s \<Longrightarrow>
     console (snd (search_loop P pat fs s)) = console s @ console (snd (search_loop P pat fs ready))"
proof (induction fs arbitrary: s)
  case Nil
  then show ?case by (simp add: ready_def)
next
  case (Cons f fs)
  obtain r s1 where rs: "search_try P pat f s = (r, s1)"
    by (cases "search_try P pat f s")
  obtain r' s1' where rs': "search_try P pat f ready = (r', s1')"
    by (cases "search_try P pat f ready")
  from search_try_initialized [OF Cons.prems, of P pat f] rs rs'
  have r: "r \<noteq> Fault" "r' = r" "initialized s1" "console s1 = console s"
    by simp_all
  from search_try_initialized [OF initialized_ready, of P pat f] rs'
  have r': "initialized s1'" "console s1' = []"
    by (simp_all add: ready_def)
  show ?case
  proof (cases r)
    case (Returned res)
    from r have i: "initialized (print (Cout_File f pat res) s1)" by simp
    from r' have i': "initialized (print (Cout_File f pat res) s1')" by simp
    show ?thesis
      using Cons.IH [OF i] Cons.IH [OF i'] r r'
      by (simp add: rs rs' Returned)
  next
    case (Thrown w)
    from r have i: "initialized (print (Cerr_Error_processing_file f w) s1)" by simp
    from r' have i': "initialized (print (Cerr_Error_processing_file f w) s1')" by simp
    show ?thesis
      using Cons.IH [OF i] Cons.IH [OF i'] r r'
      by (simp add: rs rs' Thrown)
  next
    case Fault
    with r show ?thesis by simp
  qed
qed

subsection \<open>Ingestion of one file\<close>

lemma replicate_numeral: "replicate (numeral k) x = x # replicate (pred_numeral k) x"
  by (simp add: numeral_eq_Suc)

text \<open>
  When every call succeeds, the file is shorter than \<open>2 ^ 64\<close> bytes and the copy has
  reached the readback buffer in full by the time of \<^verbatim>\<open>Map\<close>, the bytes returned are
  the bytes on disk. Nothing in \<^verbatim>\<open>read_file_direct_storage\<close> makes the last condition
  hold: between \<^verbatim>\<open>ExecuteCommandLists\<close> and \<^verbatim>\<open>Map\<close> it calls
  \<^verbatim>\<open>Signal(nullptr, 0)\<close> and nothing else.
\<close>

lemma read_file_round_trip_when_copy_done:
  assumes "read_file_direct_storage P f s = (Returned bytes, s')"
    and "length (file_contents P (c_str f)) < 2 ^ 64"
    and "length (file_contents P (c_str f))
           \<le> copy_progress P (word_of_nat (length (file_contents P (c_str f))))"
  shows "bytes = file_contents P (c_str f)"
proof -
  have u: "unat (word_of_nat (length (file_contents P (c_str f))) :: uint64_t) =
      length (file_contents P (c_str f))"
    using assms(2) by (simp add: unat_of_nat)
  have z: "file_contents P (c_str f) = []"
    if "(word_of_nat (length (file_contents P (c_str f))) :: uint64_t) = 0"
    using u that by simp
  from assms(1) show ?thesis
    using assms(3) z
    by (simp add: read_file_direct_storage_def Let_def u write_prefix_def
        split: if_splits option.splits)
qed

lemma read_file_calls_before_Map:
  "fst (read_file_direct_storage P f s) = Returned bytes \<Longrightarrow>
   \<exists>pre. calls (snd (read_file_direct_storage P f s)) =
     calls s @ pre @ [CopyResource, ExecuteCommandLists, Signal Null 0, MapResource, Unmap]"
  by (simp add: read_file_direct_storage_def Let_def split: if_splits option.splits)

text \<open>
  Claim C1 (round trip): for every file that opens and holds K bytes,
  \<^verbatim>\<open>read_file_direct_storage\<close> returns exactly those K bytes. The code does not
  ensure it. On the platform \<open>racy\<close> every call succeeds and \<^verbatim>\<open>a.txt\<close> holds the three
  bytes \<^verbatim>\<open>66 6F 6F\<close>, but the GPU has not yet written the readback buffer when the
  host maps it, and the function returns three zero bytes: the length is right, the
  content is not.
\<close>

theorem read_file_race_returns_zeros:
  "fst (read_file_direct_storage racy ''a.txt'' ready) = Returned [0, 0, 0] \<and>
   file_contents racy ''a.txt'' = [0x66, 0x6F, 0x6F]"
  by (simp add: read_file_direct_storage_def Let_def write_prefix_def racy_def healthy_def ready_def
      replicate_numeral c_str_def)

text \<open>
  Claim C2 (wait before map): between submitting the copy and mapping the readback
  buffer there is an explicit wait for the GPU. The code has none. These are all the
  calls of a successful ingestion, in order: after \<^verbatim>\<open>ExecuteCommandLists\<close> comes
  \<^verbatim>\<open>Signal\<close> with a null fence and the number 0, then \<^verbatim>\<open>Map\<close>. The only wait is
  \<^verbatim>\<open>WaitForIdle\<close> on the storage queue, before the copy is even recorded.
\<close>

theorem read_file_maps_without_wait:
  "calls (snd (read_file_direct_storage healthy ''a.txt'' ready)) =
     [OpenFile ''a.txt'', GetFileInformation ''a.txt'',
      CreateCommittedResource D3D12_HEAP_TYPE_DEFAULT 3, EnqueueReadFile ''a.txt'' 0 3,
      Submit, WaitForIdle, CreateCommittedResource D3D12_HEAP_TYPE_READBACK 3,
      ResourceBarrier, CopyResource, ExecuteCommandLists, Signal Null 0, MapResource, Unmap]"
  by (simp add: read_file_direct_storage_def Let_def healthy_def ready_def c_str_def)

text \<open>
  Claim C5 (empty file) says that a file of size 0 is ingested as an empty byte sequence
  and that the allocator is never called with size 0. The code has no case for size 0:
  for the empty file \<^verbatim>\<open>empty.txt\<close> it calls \<^verbatim>\<open>CreateCommittedResource\<close> with width
  0, and on a platform that refuses such a buffer the ingestion throws.
\<close>

theorem read_file_empty_file_counterexample:
  "file_contents healthy ''empty.txt'' = [] \<and>
   fst (read_file_direct_storage healthy ''empty.txt'' ready) =
     Thrown ''Failed to create GPU buffer for file: empty.txt'' \<and>
   calls (snd (read_file_direct_storage healthy ''empty.txt'' ready)) =
     [OpenFile ''empty.txt'', GetFileInformation ''empty.txt'',
      CreateCommittedResource D3D12_HEAP_TYPE_DEFAULT 0]"
  by (simp add: read_file_direct_storage_def Let_def healthy_def ready_def c_str_def)

text \<open>
  Claim C5 as the code has it: an empty file takes the same path as any other. On an
  initialized context, once the file (named by the C string of the path) is open and
  its size is known,
  \<^verbatim>\<open>read_file_direct_storage\<close> asks the allocator for a default-heap buffer of width
  0; when the allocator grants both buffers of width 0 and the map succeeds, the result
  is the empty byte sequence.
\<close>

theorem read_file_empty_file_no_special_case:
  assumes "initialized s"
    and "\<not> FAILED (hr_OpenFile P (c_str f))"
    and "\<not> FAILED (hr_GetFileInformation P (c_str f))"
    and "file_contents P (c_str f) = []"
  shows "CreateCommittedResource D3D12_HEAP_TYPE_DEFAULT 0
           \<in> set (new_calls s (snd (read_file_direct_storage P f s))) \<and>
         (\<not> FAILED (hr_CreateCommittedResource P D3D12_HEAP_TYPE_DEFAULT 0) \<and>
          \<not> FAILED (hr_CreateCommittedResource P D3D12_HEAP_TYPE_READBACK 0) \<and>
          \<not> FAILED (hr_Map P 0) \<longrightarrow>
            fst (read_file_direct_storage P f s) = Returned [])"
  using assms
  by (simp add: read_file_direct_storage_def Let_def initialized_def new_calls_def
      write_prefix_def)

text \<open>The hypotheses of the amended C5 hold for the empty file where width 0 is accepted.\<close>

theorem read_file_empty_file_no_special_case_witness:
  "initialized ready \<and> \<not> FAILED (hr_OpenFile lenient (c_str ''empty.txt'')) \<and>
   \<not> FAILED (hr_GetFileInformation lenient (c_str ''empty.txt'')) \<and>
   file_contents lenient (c_str ''empty.txt'') = [] \<and>
   \<not> FAILED (hr_CreateCommittedResource lenient D3D12_HEAP_TYPE_DEFAULT 0) \<and>
   \<not> FAILED (hr_CreateCommittedResource lenient D3D12_HEAP_TYPE_READBACK 0) \<and>
   \<not> FAILED (hr_Map lenient 0) \<and>
   CreateCommittedResource D3D12_HEAP_TYPE_DEFAULT 0
     \<in> set (new_calls ready (snd (read_file_direct_storage lenient ''empty.txt'' ready))) \<and>
   fst (read_file_direct_storage lenient ''empty.txt'' ready) = Returned []"
proof -
  have h1: "initialized ready" by simp
  have h2: "\<not> FAILED (hr_OpenFile lenient (c_str ''empty.txt''))"
    by (simp add: lenient_def healthy_def c_str_def)
  have h3: "\<not> FAILED (hr_GetFileInformation lenient (c_str ''empty.txt''))"
    by (simp add: lenient_def healthy_def)
  have h4: "file_contents lenient (c_str ''empty.txt'') = []"
    by (simp add: lenient_def healthy_def c_str_def)
  have h5: "\<not> FAILED (hr_CreateCommittedResource lenient D3D12_HEAP_TYPE_DEFAULT 0)"
    "\<not> FAILED (hr_CreateCommittedResource lenient D3D12_HEAP_TYPE_READBACK 0)"
    "\<not> FAILED (hr_Map lenient 0)"
    by (simp_all add: lenient_def healthy_def)
  from read_file_empty_file_no_special_case [OF h1 h2 h3 h4] h1 h2 h3 h4 h5
  show ?thesis by simp
qed

subsection \<open>The batch scan\<close>

lemma search_files_initialized:
  assumes "initialized s" "throw_get_current_device_resource P = None"
  shows "fst (search_files_with_regex P L p s) = Returned ()"
    and "initialized (snd (search_files_with_regex P L p s))"
    and "console (snd (search_files_with_regex P L p s)) =
           console s @ console (snd (search_loop P p L ready))"
    and "new_lines s (snd (search_files_with_regex P L p s)) = console (snd (search_loop P p L ready))"
    and "opened (calls (snd (search_files_with_regex P L p s))) = opened (calls s) @ map c_str L"
    and "set (patterns (calls (snd (search_files_with_regex P L p s))))
           \<subseteq> insert p (set (patterns (calls s)))"
proof -
  let ?s1 = "call get_current_device_resource s"
  have i: "initialized ?s1" using assms(1) by simp
  have e: "search_files_with_regex P L p s = search_loop P p L ?s1"
    using assms(2) by (simp add: search_files_with_regex_def Let_def)
  note l = search_loop_initialized [OF i, of P p L]
  show "fst (search_files_with_regex P L p s) = Returned ()" using l by (simp add: e)
  show "initialized (snd (search_files_with_regex P L p s))" using l by (simp add: e)
  show c: "console (snd (search_files_with_regex P L p s)) =
           console s @ console (snd (search_loop P p L ready))"
    using search_loop_console [OF i, of P p L] by (simp add: e)
  show "new_lines s (snd (search_files_with_regex P L p s)) = console (snd (search_loop P p L ready))"
    by (simp add: new_lines_def c)
  show "opened (calls (snd (search_files_with_regex P L p s))) = opened (calls s) @ map c_str L"
    using l by (simp add: e opened_append)
  show "set (patterns (calls (snd (search_files_with_regex P L p s))))
           \<subseteq> insert p (set (patterns (calls s)))"
    using l by (simp add: e patterns_append)
qed

lemma search_files_lookup_throws:
  assumes "throw_get_current_device_resource P = Some w"
  shows "fst (search_files_with_regex P L p s) = Thrown w"
    and "new_lines s (snd (search_files_with_regex P L p s)) = []"
    and "new_calls s (snd (search_files_with_regex P L p s)) = [get_current_device_resource]"
  using assms by (simp_all add: search_files_with_regex_def Let_def new_lines_def new_calls_def)

lemma ready_lines_path: "map line_path (console (snd (search_loop P p L ready))) = map Some L"
  using search_loop_initialized [OF initialized_ready, of P p L] by (simp add: ready_def)

lemma ready_lines_append:
  "console (snd (search_loop P p (xs @ ys) ready)) =
     console (snd (search_loop P p xs ready)) @ console (snd (search_loop P p ys ready))"
proof -
  obtain r s1 where rs: "search_loop P p xs ready = (r, s1)"
    by (cases "search_loop P p xs ready")
  from search_loop_initialized [OF initialized_ready, of P p xs] rs
  have r: "r = Returned ()" "initialized s1" by simp_all
  show ?thesis
    using search_loop_console [OF r(2), of P p ys]
    by (simp add: search_loop_append rs r(1))
qed

lemma ready_lines_missing:
  "FAILED (hr_OpenFile P (c_str m)) \<Longrightarrow>
   console (snd (search_loop P p [m] ready)) =
     [Cerr_Error_processing_file m (c_str (''Failed to open file with DirectStorage: '' @ m))]"
  by (simp add: search_try_def read_file_direct_storage_def Let_def ready_def print_def call_def)

text \<open>
  A path with an embedded NUL: the file that is opened is the one named by the text
  before the NUL, the path is written whole, and the message ends where the NUL is.
\<close>

lemma paths_with_embedded_NUL:
  "console (snd (search_loop healthy ''foo''
      [''a.txt'' @ CHR 0x00 # ''x'', ''missing.txt'' @ CHR 0x00 # ''x''] ready)) =
     [Cout_File (''a.txt'' @ CHR 0x00 # ''x'') ''foo'' [True, True, True],
      Cerr_Error_processing_file (''missing.txt'' @ CHR 0x00 # ''x'')
        ''Failed to open file with DirectStorage: missing.txt'']"
  by (simp add: search_try_def read_file_direct_storage_def Let_def ready_def print_def call_def
      healthy_def c_str_def write_prefix_def replicate_numeral)

text \<open>
  Claim C3 (one result per path) says that for every list of paths and every pattern
  the scan writes one result per path and never aborts early. The call to
  \<^verbatim>\<open>get_current_device_resource\<close> on line 142 is outside the \<^verbatim>\<open>try\<close>: when it throws,
  the scan of two paths on an initialized context ends with that exception and has
  written nothing.
\<close>

theorem scan_aborts_before_loop_counterexample:
  "initialized ready \<and>
   fst (search_files_with_regex no_cuda [''a.txt'', ''file2.txt''] ''foo'' ready) =
     Thrown ''cudaErrorNoDevice'' \<and>
   new_lines ready (snd (search_files_with_regex no_cuda [''a.txt'', ''file2.txt''] ''foo'' ready)) = []"
  by (simp add: search_files_with_regex_def Let_def new_lines_def no_cuda_def healthy_def ready_def
      initialized_def)

text \<open>
  Claim C3 as the code has it, on an initialized context. When
  \<^verbatim>\<open>get_current_device_resource\<close> returns, \<^verbatim>\<open>search_files_with_regex\<close> returns normally
  for every list of paths and every pattern, and writes exactly one line per path, in
  the order of the list: a \<^verbatim>\<open>File:\<close> line for a path that was read and matched, an
  \<^verbatim>\<open>Error processing file\<close> line for a path that failed; a failing file never stops
  the loop. When \<^verbatim>\<open>get_current_device_resource\<close> throws, the scan ends with that
  exception before the first path: it writes no line and makes no other call.
\<close>

theorem scan_one_line_per_path_unless_lookup_throws:
  assumes "initialized s"
  shows "(throw_get_current_device_resource P = None \<longrightarrow>
            fst (search_files_with_regex P L p s) = Returned () \<and>
            console (snd (search_files_with_regex P L p s)) =
              console s @ new_lines s (snd (search_files_with_regex P L p s)) \<and>
            length (new_lines s (snd (search_files_with_regex P L p s))) = length L \<and>
            map line_path (new_lines s (snd (search_files_with_regex P L p s))) = map Some L) \<and>
         (\<forall>w. throw_get_current_device_resource P = Some w \<longrightarrow>
            fst (search_files_with_regex P L p s) = Thrown w \<and>
            new_lines s (snd (search_files_with_regex P L p s)) = [] \<and>
            new_calls s (snd (search_files_with_regex P L p s)) = [get_current_device_resource])"
proof (intro conjI impI allI)
  assume n: "throw_get_current_device_resource P = None"
  note f = search_files_initialized [OF assms n, of L p]
  have "length (map line_path (console (snd (search_loop P p L ready)))) = length (map Some L)"
    by (simp only: ready_lines_path)
  then have len: "length (console (snd (search_loop P p L ready))) = length L" by simp
  show "fst (search_files_with_regex P L p s) = Returned ()" by (rule f(1))
  show "console (snd (search_files_with_regex P L p s)) =
          console s @ new_lines s (snd (search_files_with_regex P L p s))"
    by (simp add: f(3,4))
  show "length (new_lines s (snd (search_files_with_regex P L p s))) = length L"
    by (simp add: f(4) len)
  show "map line_path (new_lines s (snd (search_files_with_regex P L p s))) = map Some L"
    by (simp add: f(4) ready_lines_path)
next
  fix w assume w: "throw_get_current_device_resource P = Some w"
  show "fst (search_files_with_regex P L p s) = Thrown w"
    by (rule search_files_lookup_throws(1) [OF w])
  show "new_lines s (snd (search_files_with_regex P L p s)) = []"
    by (rule search_files_lookup_throws(2) [OF w])
  show "new_calls s (snd (search_files_with_regex P L p s)) = [get_current_device_resource]"
    by (rule search_files_lookup_throws(3) [OF w])
qed

text \<open>
  The hypotheses of the amended C3 hold: a list with one readable and one missing file
  where the call returns, and the same list where it throws.
\<close>

theorem scan_one_line_per_path_unless_lookup_throws_witness:
  "initialized ready \<and> throw_get_current_device_resource healthy = None \<and>
   fst (search_files_with_regex healthy [''a.txt'', ''missing.txt''] ''foo'' ready) = Returned () \<and>
   map line_path
     (new_lines ready (snd (search_files_with_regex healthy [''a.txt'', ''missing.txt''] ''foo'' ready))) =
     [Some ''a.txt'', Some ''missing.txt''] \<and>
   throw_get_current_device_resource no_cuda = Some ''cudaErrorNoDevice'' \<and>
   fst (search_files_with_regex no_cuda [''a.txt'', ''missing.txt''] ''foo'' ready) =
     Thrown ''cudaErrorNoDevice'' \<and>
   new_lines ready (snd (search_files_with_regex no_cuda [''a.txt'', ''missing.txt''] ''foo'' ready)) = []"
proof -
  have h1: "initialized ready" by simp
  have h2: "throw_get_current_device_resource healthy = None" by (simp add: healthy_def)
  have h3: "throw_get_current_device_resource no_cuda = Some ''cudaErrorNoDevice''"
    by (simp add: no_cuda_def healthy_def)
  from scan_one_line_per_path_unless_lookup_throws
         [OF h1, of healthy "[''a.txt'', ''missing.txt'']" "''foo''"]
       scan_one_line_per_path_unless_lookup_throws
         [OF h1, of no_cuda "[''a.txt'', ''missing.txt'']" "''foo''"] h1 h2 h3
  show ?thesis by simp
qed

text \<open>
  Claim C4 (a missing path is isolated) says that a path that does not exist always
  gets an error result and that no fault reaches the caller. When
  \<^verbatim>\<open>get_current_device_resource\<close> throws, the scan of a list with the missing path
  \<^verbatim>\<open>missing.txt\<close> ends with that exception at its caller and the path gets no line.
\<close>

theorem missing_path_without_result_counterexample:
  "FAILED (hr_OpenFile no_cuda (c_str ''missing.txt'')) \<and>
   fst (search_files_with_regex no_cuda [''missing.txt''] ''foo'' ready) =
     Thrown ''cudaErrorNoDevice'' \<and>
   console (snd (search_files_with_regex no_cuda [''missing.txt''] ''foo'' ready)) = []"
  by (simp add: search_files_with_regex_def Let_def no_cuda_def healthy_def ready_def c_str_def)

text \<open>
  Claim C4 as the code has it, on an initialized context, for a path \<open>m\<close> whose C
  string \<^verbatim>\<open>OpenFile\<close> cannot open. When \<^verbatim>\<open>get_current_device_resource\<close> returns, the
  scan of a list that has \<open>m\<close> in it returns normally, the line for \<open>m\<close> is the error
  line with the \<^verbatim>\<open>what()\<close> of the open failure (no match is reported for it), and the
  lines for the paths before and after \<open>m\<close> are the lines the scan writes for them
  alone, which are also the lines it writes for the list without \<open>m\<close>. When
  \<^verbatim>\<open>get_current_device_resource\<close> throws, the scan ends with that exception and writes
  no line, for \<open>m\<close> or for any other path.
\<close>

theorem missing_path_is_isolated_unless_lookup_throws:
  assumes "initialized s" and "FAILED (hr_OpenFile P (c_str m))"
  shows "(throw_get_current_device_resource P = None \<longrightarrow>
            fst (search_files_with_regex P (xs @ m # ys) p s) = Returned () \<and>
            new_lines s (snd (search_files_with_regex P (xs @ m # ys) p s)) =
              new_lines s (snd (search_files_with_regex P xs p s)) @
              Cerr_Error_processing_file m
                (c_str (''Failed to open file with DirectStorage: '' @ m)) #
              new_lines s (snd (search_files_with_regex P ys p s)) \<and>
            new_lines s (snd (search_files_with_regex P (xs @ ys) p s)) =
              new_lines s (snd (search_files_with_regex P xs p s)) @
              new_lines s (snd (search_files_with_regex P ys p s))) \<and>
         (\<forall>w. throw_get_current_device_resource P = Some w \<longrightarrow>
            fst (search_files_with_regex P (xs @ m # ys) p s) = Thrown w \<and>
            new_lines s (snd (search_files_with_regex P (xs @ m # ys) p s)) = [])"
proof (intro conjI impI allI)
  assume n: "throw_get_current_device_resource P = None"
  have "xs @ m # ys = xs @ [m] @ ys" by simp
  then have l: "console (snd (search_loop P p (xs @ m # ys) ready)) =
      console (snd (search_loop P p xs ready)) @
      Cerr_Error_processing_file m (c_str (''Failed to open file with DirectStorage: '' @ m)) #
      console (snd (search_loop P p ys ready))"
    by (simp only: ready_lines_append ready_lines_missing [OF assms(2)]) simp
  show "fst (search_files_with_regex P (xs @ m # ys) p s) = Returned ()"
    by (rule search_files_initialized(1) [OF assms(1) n])
  show "new_lines s (snd (search_files_with_regex P (xs @ m # ys) p s)) =
      new_lines s (snd (search_files_with_regex P xs p s)) @
      Cerr_Error_processing_file m (c_str (''Failed to open file with DirectStorage: '' @ m)) #
      new_lines s (snd (search_files_with_regex P ys p s))"
    by (simp add: search_files_initialized(4) [OF assms(1) n] l)
  show "new_lines s (snd (search_files_with_regex P (xs @ ys) p s)) =
      new_lines s (snd (search_files_with_regex P xs p s)) @
      new_lines s (snd (search_files_with_regex P ys p s))"
    by (simp add: search_files_initialized(4) [OF assms(1) n] ready_lines_append)
next
  fix w assume w: "throw_get_current_device_resource P = Some w"
  show "fst (search_files_with_regex P (xs @ m # ys) p s) = Thrown w"
    by (rule search_files_lookup_throws(1) [OF w])
  show "new_lines s (snd (search_files_with_regex P (xs @ m # ys) p s)) = []"
    by (rule search_files_lookup_throws(2) [OF w])
qed

text \<open>
  The hypotheses of the amended C4 hold for \<^verbatim>\<open>missing.txt\<close> between two files that
  exist, where the call returns and where it throws.
\<close>

theorem missing_path_is_isolated_unless_lookup_throws_witness:
  "initialized ready \<and> FAILED (hr_OpenFile healthy (c_str ''missing.txt'')) \<and>
   throw_get_current_device_resource healthy = None \<and>
   new_lines ready
     (snd (search_files_with_regex healthy ([''a.txt''] @ ''missing.txt'' # [''file2.txt'']) ''foo'' ready)) =
     new_lines ready (snd (search_files_with_regex healthy [''a.txt''] ''foo'' ready)) @
     Cerr_Error_processing_file ''missing.txt''
       (c_str (''Failed to open file with DirectStorage: '' @ ''missing.txt'')) #
     new_lines ready (snd (search_files_with_regex healthy [''file2.txt''] ''foo'' ready)) \<and>
   FAILED (hr_OpenFile no_cuda (c_str ''missing.txt'')) \<and>
   throw_get_current_device_resource no_cuda = Some ''cudaErrorNoDevice'' \<and>
   fst (search_files_with_regex no_cuda ([''a.txt''] @ ''missing.txt'' # [''file2.txt'']) ''foo'' ready) =
     Thrown ''cudaErrorNoDevice''"
proof -
  have h1: "initialized ready" by simp
  have h2: "throw_get_current_device_resource healthy = None" by (simp add: healthy_def)
  have h3: "FAILED (hr_OpenFile healthy (c_str ''missing.txt''))"
    by (simp add: healthy_def c_str_def)
  have h4: "FAILED (hr_OpenFile no_cuda (c_str ''missing.txt''))"
    by (simp add: no_cuda_def healthy_def c_str_def)
  have h5: "throw_get_current_device_resource no_cuda = Some ''cudaErrorNoDevice''"
    by (simp add: no_cuda_def healthy_def)
  from missing_path_is_isolated_unless_lookup_throws
         [OF h1 h3, of "[''a.txt'']" "[''file2.txt'']" "''foo''"]
       missing_path_is_isolated_unless_lookup_throws
         [OF h1 h4, of "[''a.txt'']" "[''file2.txt'']" "''foo''"] h1 h2 h3 h4 h5
  show ?thesis by simp
qed

subsection \<open>Initialization and shutdown\<close>

text \<open>
  Claim C6 (atomic initialization) says that after a failed initialization the handles
  of the Device Context are all valid or all null. They are not: when the command queue
  cannot be created, the device stays valid and the other three are null.
\<close>

theorem initialize_not_atomic_counterexample:
  "fst (initialize_direct_storage no_queue process_start) =
     Thrown ''Failed to create D3D12 command queue.'' \<and>
   device_context (snd (initialize_direct_storage no_queue process_start)) =
     [Valid, Null, Null, Null]"
  by (simp add: initialize_direct_storage_def Let_def no_queue_def healthy_def process_start_def
      device_context_def)

lemma initialize_calls:
  "calls (snd (initialize_direct_storage P s)) =
     calls s @
     concat (take (if FAILED (hr_DStorageGetFactory P) then 1
                   else if FAILED (hr_D3D12CreateDevice P) then 2
                   else if FAILED (hr_CreateCommandQueue P) then 3
                   else if FAILED (hr_CreateCommandAllocator P) then 4
                   else if FAILED (hr_CreateCommandList P) then 5
                   else 6) (initialization_steps s))"
  by (simp add: initialize_direct_storage_def Let_def calls_release initialization_steps_def)

lemma initialize_handles:
  "handles (snd (initialize_direct_storage P s)) =
     (if FAILED (hr_DStorageGetFactory P)
        then [Null, device s, commandQueue s, commandAllocator s, commandList s, storageQueue s]
      else if FAILED (hr_D3D12CreateDevice P)
        then [Valid, Null, commandQueue s, commandAllocator s, commandList s, storageQueue s]
      else if FAILED (hr_CreateCommandQueue P)
        then [Valid, Valid, Null, commandAllocator s, commandList s, storageQueue s]
      else if FAILED (hr_CreateCommandAllocator P)
        then [Valid, Valid, Valid, Null, commandList s, storageQueue s]
      else if FAILED (hr_CreateCommandList P)
        then [Valid, Valid, Valid, Valid, Null, storageQueue s]
      else if FAILED (hr_CreateQueue P)
        then [Valid, Valid, Valid, Valid, Valid, Null]
      else [Valid, Valid, Valid, Valid, Valid, Valid])"
  by (simp add: initialize_direct_storage_def Let_def handles_def)

text \<open>
  Claim C6 as the code has it: if one of the six creation calls fails,
  \<^verbatim>\<open>initialize_direct_storage\<close> throws the \<^verbatim>\<open>std::runtime_error\<close> of the first
  one that fails and goes no further: the calls it has made are those of the sub-steps
  up to the failing one, each a release of the global if it held an interface and then
  the creation call. Nothing is rolled back: the handles created before stay valid,
  the one whose creation failed is null, the later ones are what they were before the
  call.
\<close>

theorem initialize_failure_keeps_earlier_handles:
  assumes "list_ex FAILED (initialization_results P)"
  shows "\<exists>k<6. FAILED (initialization_results P ! k) \<and>
           \<not> list_ex FAILED (take k (initialization_results P)) \<and>
           fst (initialize_direct_storage P s) = Thrown (initialization_errors ! k) \<and>
           handles (snd (initialize_direct_storage P s)) =
             replicate k Valid @ Null # drop (Suc k) (handles s) \<and>
           new_calls s (snd (initialize_direct_storage P s)) =
             concat (take (Suc k) (initialization_steps s))"
proof -
  let ?R = "initialization_results P"
  consider
      (0) "FAILED (?R ! 0)"
    | (1) "\<not> FAILED (?R ! 0)" "FAILED (?R ! 1)"
    | (2) "\<not> FAILED (?R ! 0)" "\<not> FAILED (?R ! 1)" "FAILED (?R ! 2)"
    | (3) "\<not> FAILED (?R ! 0)" "\<not> FAILED (?R ! 1)" "\<not> FAILED (?R ! 2)" "FAILED (?R ! 3)"
    | (4) "\<not> FAILED (?R ! 0)" "\<not> FAILED (?R ! 1)" "\<not> FAILED (?R ! 2)" "\<not> FAILED (?R ! 3)"
          "FAILED (?R ! 4)"
    | (5) "\<not> FAILED (?R ! 0)" "\<not> FAILED (?R ! 1)" "\<not> FAILED (?R ! 2)" "\<not> FAILED (?R ! 3)"
          "\<not> FAILED (?R ! 4)" "FAILED (?R ! 5)"
    using assms by (auto simp add: initialization_results_def)
  then show ?thesis
  proof cases
    case 0
    then show ?thesis
      by (intro exI [of _ 0])
        (simp add: initialization_results_def initialize_outcome initialize_handles handles_def [of s]
          new_calls_def initialize_calls initialization_steps_def)
  next
    case 1
    then show ?thesis
      by (intro exI [of _ 1])
        (simp add: initialization_results_def initialize_outcome initialize_handles handles_def [of s]
          new_calls_def initialize_calls initialization_steps_def)
  next
    case 2
    then show ?thesis
      by (intro exI [of _ 2])
        (simp add: initialization_results_def initialize_outcome initialize_handles handles_def [of s]
          replicate_numeral new_calls_def initialize_calls initialization_steps_def)
  next
    case 3
    then show ?thesis
      by (intro exI [of _ 3])
        (simp add: initialization_results_def initialize_outcome initialize_handles handles_def [of s]
          replicate_numeral new_calls_def initialize_calls initialization_steps_def)
  next
    case 4
    then show ?thesis
      by (intro exI [of _ 4])
        (simp add: initialization_results_def initialize_outcome initialize_handles handles_def [of s]
          replicate_numeral new_calls_def initialize_calls initialization_steps_def)
  next
    case 5
    then show ?thesis
      by (intro exI [of _ 5])
        (simp add: initialization_results_def initialize_outcome initialize_handles handles_def [of s]
          replicate_numeral new_calls_def initialize_calls initialization_steps_def)
  qed
qed

text \<open>The hypothesis of the amended C6 holds where the command queue cannot be created.\<close>

theorem initialize_failure_keeps_earlier_handles_witness:
  "list_ex FAILED (initialization_results no_queue) \<and>
   (\<exists>k<6. FAILED (initialization_results no_queue ! k) \<and>
           \<not> list_ex FAILED (take k (initialization_results no_queue)) \<and>
           fst (initialize_direct_storage no_queue process_start) =
             Thrown (initialization_errors ! k) \<and>
           handles (snd (initialize_direct_storage no_queue process_start)) =
             replicate k Valid @ Null # drop (Suc k) (handles process_start) \<and>
           new_calls process_start (snd (initialize_direct_storage no_queue process_start)) =
             concat (take (Suc k) (initialization_steps process_start)))"
proof -
  have h: "list_ex FAILED (initialization_results no_queue)"
    by (simp add: initialization_results_def no_queue_def healthy_def)
  from initialize_failure_keeps_earlier_handles [OF h, of process_start] h
  show ?thesis by simp
qed

lemma release_Null [simp]: "release g Null s = s"
  by (simp add: release_def)

lemma XWF_Exit_handles:
  "storageFactory (snd (XWF_Exit s)) = Null" "storageQueue (snd (XWF_Exit s)) = Null"
  "device (snd (XWF_Exit s)) = Null" "commandQueue (snd (XWF_Exit s)) = Null"
  "commandAllocator (snd (XWF_Exit s)) = Null" "commandList (snd (XWF_Exit s)) = Null"
  "console (snd (XWF_Exit s)) = console s"
  by (simp_all add: XWF_Exit_def Let_def)

lemma XWF_Exit_when_null:
  assumes "storageFactory s = Null" "storageQueue s = Null" "device s = Null"
    "commandQueue s = Null" "commandAllocator s = Null" "commandList s = Null"
  shows "XWF_Exit s = (0, s)"
  using assms by (simp add: XWF_Exit_def Let_def)

lemma XWF_Exit_calls:
  "calls (snd (XWF_Exit s)) =
     calls s @ map Release
       (filter (held s)
          [StorageQueue, StorageFactory, CommandList, CommandAllocator, CommandQueue, Device])"
  by (simp add: XWF_Exit_def Let_def calls_release released_def)

text \<open>
  Claim C7 (shutdown is idempotent and ordered): \<^verbatim>\<open>XWF_Exit\<close> returns 0 from every
  state and leaves all six handles null; it releases the handles that are held in the
  order storage queue, storage factory, command list, command allocator, command queue,
  device, so the device goes last; a second call, or a call in a process that never
  initialized, releases nothing and changes nothing.
\<close>

theorem XWF_Exit_idempotent_in_order:
  "fst (XWF_Exit s) = 0 \<and>
   handles (snd (XWF_Exit s)) = replicate 6 Null \<and>
   calls (snd (XWF_Exit s)) =
     calls s @ map Release
       (filter (held s)
          [StorageQueue, StorageFactory, CommandList, CommandAllocator, CommandQueue, Device]) \<and>
   XWF_Exit (snd (XWF_Exit s)) = (0, snd (XWF_Exit s)) \<and>
   XWF_Exit process_start = (0, process_start)"
proof -
  have a: "fst (XWF_Exit s) = 0" by (simp add: XWF_Exit_def Let_def)
  have b: "handles (snd (XWF_Exit s)) = replicate 6 Null"
    by (simp add: handles_def XWF_Exit_handles replicate_numeral)
  have c: "XWF_Exit (snd (XWF_Exit s)) = (0, snd (XWF_Exit s))"
    by (rule XWF_Exit_when_null) (simp_all add: XWF_Exit_handles)
  have d: "XWF_Exit process_start = (0, process_start)"
    by (rule XWF_Exit_when_null) (simp_all add: process_start_def)
  from a b c d XWF_Exit_calls [of s] show ?thesis by simp
qed

lemma patterns_calls_release [simp]: "patterns (calls (release g p s)) = patterns (calls s)"
  by (simp add: calls_release patterns_append)


lemma XWF_Run_cases:
  "(\<exists>w. fst (initialize_direct_storage P s) = Thrown w \<and>
        XWF_Run P s =
          (Returned 1, print (Cerr_XWF_Run_error w) (snd (initialize_direct_storage P s)))) \<or>
   (\<exists>w. fst (initialize_direct_storage P s) = Returned () \<and>
        throw_get_current_device_resource P = Some w \<and>
        XWF_Run P s =
          (Returned 1,
           print (Cerr_XWF_Run_error w)
             (call get_current_device_resource (snd (initialize_direct_storage P s))))) \<or>
   (fst (initialize_direct_storage P s) = Returned () \<and>
    throw_get_current_device_resource P = None \<and>
    XWF_Run P s =
      (Returned 0,
       snd (search_files_with_regex P [''file1.txt'', ''file2.txt'', ''file3.txt'']
              ''your-regex-pattern'' (snd (initialize_direct_storage P s)))))"
proof -
  obtain r s1 where rs: "initialize_direct_storage P s = (r, s1)"
    by (cases "initialize_direct_storage P s")
  from initialize_not_Fault [of P s] rs have nf: "r \<noteq> Fault" by simp
  show ?thesis
  proof (cases r)
    case (Returned u)
    from initialize_Returned [of P s u] rs Returned have i: "initialized s1" by simp
    show ?thesis
    proof (cases "throw_get_current_device_resource P")
      case None
      obtain r2 s2 where rs2:
        "search_files_with_regex P [''file1.txt'', ''file2.txt'', ''file3.txt'']
           ''your-regex-pattern'' s1 = (r2, s2)"
        by (cases "search_files_with_regex P [''file1.txt'', ''file2.txt'', ''file3.txt'']
           ''your-regex-pattern'' s1")
      from search_files_initialized(1) [OF i None, of "[''file1.txt'', ''file2.txt'', ''file3.txt'']"
          "''your-regex-pattern''"] rs2
      have "r2 = Returned ()" by simp
      then show ?thesis
        by (simp add: XWF_Run_def rs Returned None rs2 Let_def)
    next
      case (Some w)
      then show ?thesis
        by (simp add: XWF_Run_def rs Returned search_files_with_regex_def Let_def)
    qed
  next
    case (Thrown w)
    then show ?thesis by (simp add: XWF_Run_def rs)
  next
    case Fault
    with nf show ?thesis by simp
  qed
qed

text \<open>
  Claim C8 (scan before start) says that a scan before initialization, or after
  shutdown, fails with a \<^verbatim>\<open>NotInitializedError\<close>. The code has no such error and no
  check: \<^verbatim>\<open>read_file_direct_storage\<close> calls \<^verbatim>\<open>storageFactory->OpenFile\<close> through the
  null pointer. No exception is thrown and no line is written.
\<close>

theorem scan_before_start_counterexample:
  "fst (search_files_with_regex healthy [''a.txt''] ''foo'' process_start) = Fault \<and>
   console (snd (search_files_with_regex healthy [''a.txt''] ''foo'' process_start)) = [] \<and>
   fst (search_files_with_regex healthy [''a.txt''] ''foo'' (snd (XWF_Exit ready))) = Fault"
  by (simp add: search_files_with_regex_def search_try_def read_file_direct_storage_def Let_def
      healthy_def process_start_def XWF_Exit_handles c_str_def)

text \<open>
  Claim C8 as the code has it: the guarantee is in \<^verbatim>\<open>XWF_Run\<close>, the only caller of the
  scan. It scans only after \<^verbatim>\<open>initialize_direct_storage\<close> has returned, and then all
  six handles are valid, so \<^verbatim>\<open>XWF_Run\<close> never goes through a null handle; when the
  initialization throws, \<^verbatim>\<open>XWF_Run\<close> opens no file, writes the error and returns 1.
\<close>

theorem XWF_Run_scans_only_after_initialization:
  "fst (XWF_Run P s) \<noteq> Fault \<and>
   (fst (initialize_direct_storage P s) = Returned () \<longrightarrow>
      initialized (snd (initialize_direct_storage P s))) \<and>
   (\<forall>w. fst (initialize_direct_storage P s) = Thrown w \<longrightarrow>
      XWF_Run P s =
        (Returned 1, print (Cerr_XWF_Run_error w) (snd (initialize_direct_storage P s))) \<and>
      opened (calls (snd (XWF_Run P s))) = opened (calls s))"
proof -
  have a: "fst (XWF_Run P s) \<noteq> Fault"
    using XWF_Run_cases [of P s] by auto
  have b: "fst (initialize_direct_storage P s) = Returned () \<longrightarrow>
      initialized (snd (initialize_direct_storage P s))"
    by (simp add: initialize_Returned)
  have c: "\<forall>w. fst (initialize_direct_storage P s) = Thrown w \<longrightarrow>
      XWF_Run P s =
        (Returned 1, print (Cerr_XWF_Run_error w) (snd (initialize_direct_storage P s))) \<and>
      opened (calls (snd (XWF_Run P s))) = opened (calls s)"
    using XWF_Run_cases [of P s] by (auto simp add: initialize_opened)
  from a b c show ?thesis by blast
qed

text \<open>Both hypotheses of the amended C8 occur: a platform that initializes and one that does not.\<close>

theorem XWF_Run_scans_only_after_initialization_witness:
  "fst (initialize_direct_storage healthy process_start) = Returned () \<and>
   initialized (snd (initialize_direct_storage healthy process_start)) \<and>
   fst (initialize_direct_storage no_queue process_start) =
     Thrown ''Failed to create D3D12 command queue.'' \<and>
   fst (XWF_Run no_queue process_start) = Returned 1 \<and>
   opened (calls (snd (XWF_Run no_queue process_start))) = []"
proof -
  have h1: "fst (initialize_direct_storage healthy process_start) = Returned ()"
    by (simp add: initialize_outcome healthy_def)
  have h2: "fst (initialize_direct_storage no_queue process_start) =
     Thrown ''Failed to create D3D12 command queue.''"
    by (simp add: initialize_outcome no_queue_def healthy_def initialization_errors_def)
  from XWF_Run_scans_only_after_initialization [of healthy process_start]
    XWF_Run_scans_only_after_initialization [of no_queue process_start] h1 h2
  show ?thesis by (simp add: initialize_opened process_start_def)
qed



text \<open>
  Claim C10 (return code): \<^verbatim>\<open>XWF_Run\<close> always returns, and it returns 1 exactly when
  \<^verbatim>\<open>initialize_direct_storage\<close> throws or the call to
  \<^verbatim>\<open>get_current_device_resource\<close> before the loop throws; otherwise it returns 0,
  whatever happens to the files.
\<close>

theorem XWF_Run_return_code:
  "fst (XWF_Run P s) =
     Returned (if (\<exists>w. fst (initialize_direct_storage P s) = Thrown w) \<or>
                  throw_get_current_device_resource P \<noteq> None
               then 1 else 0)"
  using XWF_Run_cases [of P s] by auto

text \<open>
  C10 where no file can be opened (return code 0), where the command queue cannot be
  created and where RMM throws (return code 1).
\<close>

theorem XWF_Run_return_code_witness:
  "fst (XWF_Run no_files process_start) = Returned 0 \<and>
   fst (XWF_Run no_queue process_start) = Returned 1 \<and>
   fst (XWF_Run no_cuda process_start) = Returned 1"
proof -
  have h1: "fst (initialize_direct_storage no_files process_start) = Returned ()"
    by (simp add: initialize_outcome no_files_def healthy_def)
  have h2: "throw_get_current_device_resource no_files = None"
    by (simp add: no_files_def healthy_def)
  have h3: "fst (initialize_direct_storage no_queue process_start) =
     Thrown ''Failed to create D3D12 command queue.''"
    by (simp add: initialize_outcome no_queue_def healthy_def initialization_errors_def)
  have h4: "throw_get_current_device_resource no_cuda = Some ''cudaErrorNoDevice''"
    by (simp add: no_cuda_def healthy_def)
  from XWF_Run_return_code [of no_files process_start]
    XWF_Run_return_code [of no_queue process_start]
    XWF_Run_return_code [of no_cuda process_start] h1 h2 h3 h4
  show ?thesis by simp
qed

text \<open>The run that returns 0 although all three files fail.\<close>

lemma XWF_Run_no_files_console:
  "console (snd (XWF_Run no_files process_start)) =
     [Cerr_Error_processing_file ''file1.txt'' ''Failed to open file with DirectStorage: file1.txt'',
      Cerr_Error_processing_file ''file2.txt'' ''Failed to open file with DirectStorage: file2.txt'',
      Cerr_Error_processing_file ''file3.txt'' ''Failed to open file with DirectStorage: file3.txt'']"
  by (simp add: XWF_Run_def initialize_direct_storage_def search_files_with_regex_def search_try_def
      read_file_direct_storage_def Let_def no_files_def healthy_def process_start_def c_str_def)

end
